theory Spec2Isabelle
  imports Complex_Main
begin

section \<open>Exceptions\<close>

text \<open>
  A Python exception is identified by its class and carries a message (what \<^verbatim>\<open>str(e)\<close>
  prints). Every \<^verbatim>\<open>raise\<close> of the source, and every failing index or attribute
  access, is a value \<open>Inl e\<close> of the result type \<open>exception + 'a\<close>.
\<close>

datatype exception = Exception (exc_type: string) (exc_msg: string)

definition ValueError :: "string \<Rightarrow> exception" where
  "ValueError msg = Exception ''ValueError'' msg"

definition FileNotFoundError :: "string \<Rightarrow> exception" where
  "FileNotFoundError msg = Exception ''FileNotFoundError'' msg"

definition IndexError :: "string \<Rightarrow> exception" where
  "IndexError msg = Exception ''IndexError'' msg"

definition AttributeError :: "string \<Rightarrow> exception" where
  "AttributeError attr = Exception ''AttributeError'' attr"

section \<open>Tables\<close>

text \<open>
  A pandas DataFrame is its list of column names and its rows, in order; the row labels of
  every frame of the source are the positions \<open>0, 1, ...\<close> (the default index of
  \<^verbatim>\<open>read_csv\<close>). Only the columns the source names are modelled. All row types
  share the key column \<open>item_id\<close>. A missing cell (NaN) is \<open>None\<close>. Ratings and
  scores are real numbers: the rounding of floating-point arithmetic is not modelled.
\<close>

record keyed =
  item_id :: int

record interaction = keyed +
  user_id :: int
  rating :: real

record item = keyed +
  description :: "string option"

record scored = keyed +
  cf_score :: "real option"
  cb_score :: "real option"
  hybrid_score :: real

record recommendation = scored +
  metadata :: item

record 'r dataframe =
  columns :: "string list"
  rows :: "'r list"

section \<open>The trained components\<close>

text \<open>
  The collaborative model is opaque: \<open>predict_est m u i\<close> is the \<^verbatim>\<open>est\<close> field of
  \<^verbatim>\<open>cf_model.predict(u, i)\<close>. The vectorizer is kept as its fitted state only
  (\<open>None\<close> before \<^verbatim>\<open>fit_transform\<close>).
\<close>

record SVD =
  predict_est :: "int \<Rightarrow> int \<Rightarrow> real"

record TfidfVectorizer =
  stop_words :: string
  vocabulary :: "string list option"

text \<open>
  An instance of \<^verbatim>\<open>HybridRecommender\<close>: every attribute is absent (\<open>None\<close>) until
  an assignment \<^verbatim>\<open>self.x = ...\<close> sets it.
\<close>

record HybridRecommender =
  alpha :: "real option"
  logger :: "string option"
  interactions :: "interaction dataframe option"
  item_data :: "item dataframe option"
  cf_model :: "SVD option"
  tfidf :: "TfidfVectorizer option"
  tfidf_matrix :: "real list list option"
  cosine_sim :: "real list list option"

definition new_instance :: HybridRecommender where
  "new_instance = \<lparr>alpha = None, logger = None, interactions = None, item_data = None,
     cf_model = None, tfidf = None, tfidf_matrix = None, cosine_sim = None\<rparr>"

section \<open>Library operations used by \<^verbatim>\<open>recommend_items\<close>\<close>

text \<open>\<^verbatim>\<open>Series.unique()\<close>: the distinct values in order of first appearance.\<close>

fun unique :: "'a list \<Rightarrow> 'a list" where
  "unique [] = []"
| "unique (x # xs) = x # unique (filter (\<lambda>y. y \<noteq> x) xs)"

text \<open>
  \<^verbatim>\<open>sorted(xs, key=k, reverse=True)\<close>: descending by key, elements of equal key in their
  original order (Python's sort is stable, also when reversed).
\<close>

definition sorted_reverse :: "('a \<Rightarrow> real) \<Rightarrow> 'a list \<Rightarrow> 'a list" where
  "sorted_reverse k xs = sort_key (\<lambda>x. - k x) xs"

text \<open>
  The slice \<^verbatim>\<open>xs[1:n+1]\<close>: a negative stop counts from the end, and every bound is
  clipped to the list.
\<close>

definition slice_1_to :: "'a list \<Rightarrow> int \<Rightarrow> 'a list" where
  "slice_1_to xs stop =
     (let len = int (length xs);
          stop' = (if stop < 0 then max (len + stop) 0 else min stop len)
      in drop 1 (take (nat stop') xs))"

text \<open>\<^verbatim>\<open>Series.fillna(v)\<close> on one cell.\<close>

definition fillna :: "'a \<Rightarrow> 'a option \<Rightarrow> 'a" where
  "fillna v cell = (case cell of None \<Rightarrow> v | Some x \<Rightarrow> x)"

text \<open>
  \<^verbatim>\<open>pd.merge(left, right, on='item_id', how='outer')\<close> of two score frames, rows as
  (key, score): the union of the keys, sorted (the documented order of an outer merge);
  for a key on both sides every pair of its left and right rows, otherwise the rows of the
  one side with the other side's cell missing.
\<close>

definition merge_outer ::
  "(int \<times> real) list \<Rightarrow> (int \<times> real) list \<Rightarrow> (int \<times> real option \<times> real option) list" where
  "merge_outer left right =
     concat (map (\<lambda>k.
         let l = filter (\<lambda>x. fst x = k) left;
             r = filter (\<lambda>y. fst y = k) right
         in if r = [] then map (\<lambda>x. (k, Some (snd x), None)) l
            else if l = [] then map (\<lambda>y. (k, None, Some (snd y))) r
            else concat (map (\<lambda>x. map (\<lambda>y. (k, Some (snd x), Some (snd y))) r) l))
       (sort (remdups (map fst left @ map fst right))))"

text \<open>
  \<^verbatim>\<open>df.sort_values('hybrid_score', ascending=False)\<close>: descending by hybrid score.
  The source names no secondary key and no sort kind, and pandas' default kind
  (quicksort) is not stable: among rows of equal score the order pandas returns is not
  determined by this code, and on longer runs of equal scores it differs from the order
  below. The model fixes one order, that of a stable sort (rows of equal score stay in the
  order they had). The general theorems about the result use only that it is a
  descending rearrangement of the rows; an evaluation with equal scores shows the order
  of this model.
\<close>

definition sort_values_desc :: "scored dataframe \<Rightarrow> scored dataframe" where
  "sort_values_desc df = df\<lparr>rows := sort_key (\<lambda>r. - hybrid_score r) (rows df)\<rparr>"

text \<open>\<^verbatim>\<open>df.head(n)\<close>: the first \<open>n\<close> rows; for negative \<open>n\<close> all but the last \<open>-n\<close>.\<close>

definition head :: "int \<Rightarrow> 'r dataframe \<Rightarrow> 'r dataframe" where
  "head n df =
     df\<lparr>rows := (if 0 \<le> n then take (nat n) (rows df)
                 else take (nat (int (length (rows df)) + n)) (rows df))\<rparr>"

text \<open>
  \<^verbatim>\<open>recommendations.merge(self.item_data, on='item_id')\<close>: the inner join, in the order
  of the left rows, each with every catalog row of its key. A column name on both sides
  other than the key gets the suffixes \<^verbatim>\<open>_x\<close> and \<^verbatim>\<open>_y\<close>.
\<close>

definition merge_columns :: "string list \<Rightarrow> string list \<Rightarrow> string list" where
  "merge_columns l r =
     map (\<lambda>c. if c \<noteq> ''item_id'' \<and> c \<in> set r then c @ ''_x'' else c) l @
     map (\<lambda>c. if c \<in> set l then c @ ''_y'' else c) (filter (\<lambda>c. c \<noteq> ''item_id'') r)"

definition join_row :: "scored \<Rightarrow> item \<Rightarrow> recommendation" where
  "join_row s it = \<lparr>item_id = item_id s, cf_score = cf_score s, cb_score = cb_score s,
     hybrid_score = hybrid_score s, metadata = it\<rparr>"

definition merge_item_data :: "scored dataframe \<Rightarrow> item dataframe \<Rightarrow> recommendation dataframe" where
  "merge_item_data recs idata =
     \<lparr>columns = merge_columns (columns recs) (columns idata),
      rows = concat (map (\<lambda>s. map (join_row s)
                 (filter (\<lambda>it. item_id it = item_id s) (rows idata))) (rows recs))\<rparr>"

section \<open>\<^verbatim>\<open>recommend_items\<close>\<close>

text \<open>
  The collaborative loop: one prediction for every distinct catalog item. The attribute
  \<^verbatim>\<open>self.cf_model\<close> is read inside the loop, so not at all on an empty catalog.
\<close>

definition cf_predictions ::
  "HybridRecommender \<Rightarrow> int \<Rightarrow> int list \<Rightarrow> exception + (int \<times> real) list" where
  "cf_predictions self uid all_items =
     (if all_items = [] then Inr []
      else case cf_model self of
             None \<Rightarrow> Inl (AttributeError ''cf_model'')
           | Some m \<Rightarrow> Inr (map (\<lambda>iid. (iid, predict_est m uid iid)) all_items))"

text \<open>
  The content-based candidates for a seed item: the row position \<open>idx\<close> of the first
  catalog row with the seed's id (\<^verbatim>\<open>.tolist()[0]\<close> raises IndexError when there is
  none), the similarity row \<open>idx\<close> enumerated and sorted descending, the first entry of the
  sorted list dropped and the next \<open>n\<close> kept, and the catalog ids at those positions.
\<close>

definition sim_scores_of :: "real list \<Rightarrow> int \<Rightarrow> (nat \<times> real) list" where
  "sim_scores_of sim_row n = slice_1_to (sorted_reverse snd (enumerate 0 sim_row)) (n + 1)"

definition cb_recommendations ::
  "HybridRecommender \<Rightarrow> item dataframe \<Rightarrow> int \<Rightarrow> int \<Rightarrow> exception + (int \<times> real) list" where
  "cb_recommendations self idata iid n =
     (case filter (\<lambda>j. item_id (rows idata ! j) = iid) [0..<length (rows idata)] of
        [] \<Rightarrow> Inl (IndexError ''list index out of range'')
      | idx # _ \<Rightarrow>
          (case cosine_sim self of
             None \<Rightarrow> Inl (AttributeError ''cosine_sim'')
           | Some sim \<Rightarrow>
               if length sim \<le> idx then Inl (IndexError ''index is out of bounds'')
               else
                 let sim_scores = sim_scores_of (sim ! idx) n;
                     item_indices = map fst sim_scores
                 in if \<exists>j \<in> set item_indices. length (rows idata) \<le> j
                    then Inl (IndexError ''positional indexers are out-of-bounds'')
                    else Inr (zip (map (\<lambda>j. item_id (rows idata ! j)) item_indices)
                                  (map snd sim_scores))))"

text \<open>
  Combining: with content-based candidates the two frames are outer-merged and the hybrid
  score is the weighted sum with missing cells filled by 0 (the filled values are used
  in the sum only, the cells stay missing); without candidates the frame is the
  collaborative one, it has no \<^verbatim>\<open>cb_score\<close> column, and the hybrid score is the
  collaborative score itself.
\<close>

definition combine ::
  "HybridRecommender \<Rightarrow> (int \<times> real) list \<Rightarrow> (int \<times> real) list \<Rightarrow> exception + scored dataframe" where
  "combine self cf_recs cb_recs =
     (if cb_recs \<noteq> [] then
        (case alpha self of
           None \<Rightarrow> Inl (AttributeError ''alpha'')
         | Some a \<Rightarrow>
             Inr \<lparr>columns = [''item_id'', ''cf_score'', ''cb_score'', ''hybrid_score''],
                  rows = map (\<lambda>(k, cf, cb).
                      \<lparr>item_id = k, cf_score = cf, cb_score = cb,
                       hybrid_score = a * fillna 0 cf + (1 - a) * fillna 0 cb\<rparr>)
                    (merge_outer cf_recs cb_recs)\<rparr>)
      else
        Inr \<lparr>columns = [''item_id'', ''cf_score'', ''hybrid_score''],
             rows = map (\<lambda>(k, c).
                 \<lparr>item_id = k, cf_score = Some c, cb_score = None, hybrid_score = c\<rparr>)
               cf_recs\<rparr>)"

text \<open>The branch on the seed: without one the candidate frame is empty.\<close>

definition content_based_recs ::
  "HybridRecommender \<Rightarrow> item dataframe \<Rightarrow> int option \<Rightarrow> int \<Rightarrow> exception + (int \<times> real) list" where
  "content_based_recs self idata seed n =
     (case seed of None \<Rightarrow> Inr [] | Some iid \<Rightarrow> cb_recommendations self idata iid n)"

definition recommend_items ::
  "HybridRecommender \<Rightarrow> int \<Rightarrow> int option \<Rightarrow> int \<Rightarrow> exception + recommendation dataframe" where
  "recommend_items self uid seed n =
     (case item_data self of
        None \<Rightarrow> Inl (AttributeError ''item_data'')
      | Some idata \<Rightarrow>
          (case cf_predictions self uid (unique (map item_id (rows idata))) of
             Inl e \<Rightarrow> Inl e
           | Inr cf_recs \<Rightarrow>
               (case content_based_recs self idata seed n of
                  Inl e \<Rightarrow> Inl e
                | Inr cb_recs \<Rightarrow>
                    (case combine self cf_recs cb_recs of
                       Inl e \<Rightarrow> Inl e
                     | Inr recommendations \<Rightarrow>
                         Inr (merge_item_data (head n (sort_values_desc recommendations)) idata)))))"

text \<open>
  The similarity matrix of a catalog of \<open>k\<close> rows is \<open>k \<times> k\<close>: what
  \<^verbatim>\<open>linear_kernel(tfidf_matrix, tfidf_matrix)\<close> returns for the \<open>k\<close> descriptions.
\<close>

definition similarity_shape :: "nat \<Rightarrow> real list list \<Rightarrow> bool" where
  "similarity_shape k sim = (length sim = k \<and> list_all (\<lambda>sim_row. length sim_row = k) sim)"

section \<open>The world outside the instance\<close>

text \<open>
  What \<^verbatim>\<open>save_model\<close> hands to \<^verbatim>\<open>joblib.dump\<close>: the dictionary of the five
  trained components.
\<close>

record model_data =
  md_alpha :: real
  md_tfidf :: TfidfVectorizer
  md_cf_model :: SVD
  md_cosine_sim :: "real list list"
  md_item_data :: "item dataframe"

text \<open>
  \<^verbatim>\<open>joblib\<close> is a parameter, as the training libraries are: \<open>dumps\<close> is the byte
  content \<^verbatim>\<open>joblib.dump\<close> writes for a dictionary, \<open>loads\<close> what
  \<^verbatim>\<open>joblib.load\<close> restores from a file's bytes. Either may raise, and nothing here
  says that the one undoes the other.
\<close>

record joblib =
  dumps :: "model_data \<Rightarrow> exception + string"
  loads :: "string \<Rightarrow> exception + model_data"

text \<open>
  The file system and the process-wide logging state. A CSV path that exists is given by
  the table \<^verbatim>\<open>pd.read_csv\<close> parses from it (in the row type of its use), a dump
  file by its bytes; \<open>writable\<close> says whether a file can be created or replaced at a
  path; \<open>log_records\<close> are the (level, message) pairs handed to the logger, oldest
  first.
\<close>

record world =
  interaction_files :: "string \<rightharpoonup> interaction dataframe"
  metadata_files :: "string \<rightharpoonup> item dataframe"
  model_files :: "string \<rightharpoonup> string"
  writable :: "string \<Rightarrow> bool"
  logging_configured :: bool
  log_records :: "(string \<times> string) list"

text \<open>
  The training libraries (surprise, scikit-learn) are parameters: \<open>train_test_split\<close> stands
  for \<^verbatim>\<open>Dataset.load_from_df\<close> followed by \<^verbatim>\<open>train_test_split(data, test_size=0.25)\<close>,
  \<open>svd_test_rmse\<close> for \<^verbatim>\<open>rmse(cf_model.test(testset))\<close>, \<open>format_rmse\<close> for the
  format \<^verbatim>\<open>:.4f\<close>. A library call may raise.
\<close>

record library =
  train_test_split :: "interaction list \<Rightarrow> exception + (interaction list \<times> interaction list)"
  svd_new :: SVD
  svd_fit :: "SVD \<Rightarrow> interaction list \<Rightarrow> exception + SVD"
  svd_test_rmse :: "SVD \<Rightarrow> interaction list \<Rightarrow> exception + real"
  format_rmse :: "real \<Rightarrow> string"
  tfidf_fit_transform :: "TfidfVectorizer \<Rightarrow> string list \<Rightarrow> exception + (TfidfVectorizer \<times> real list list)"
  linear_kernel :: "real list list \<Rightarrow> real list list \<Rightarrow> real list list"

text \<open>
  A method that mutates \<^verbatim>\<open>self\<close> and the world returns both, with the exception it
  raised, if any: the state at the moment of the raise is part of the outcome.
\<close>

type_synonym outcome = "exception option \<times> HybridRecommender \<times> world"

definition and_then :: "outcome \<Rightarrow> (HybridRecommender \<Rightarrow> world \<Rightarrow> outcome) \<Rightarrow> outcome" where
  "and_then r f = (case r of (None, self, w) \<Rightarrow> f self w | (Some e, self, w) \<Rightarrow> (Some e, self, w))"

text \<open>\<^verbatim>\<open>self.logger.info(msg)\<close> and \<^verbatim>\<open>self.logger.error(msg)\<close>.\<close>

definition logger_call :: "string \<Rightarrow> string \<Rightarrow> HybridRecommender \<Rightarrow> world \<Rightarrow> outcome" where
  "logger_call level msg self w =
     (case logger self of
        None \<Rightarrow> (Some (AttributeError ''logger''), self, w)
      | Some _ \<Rightarrow> (None, self, w\<lparr>log_records := log_records w @ [(level, msg)]\<rparr>))"

section \<open>Construction\<close>

definition setup_logging :: "HybridRecommender \<Rightarrow> world \<Rightarrow> outcome" where
  "setup_logging self w =
     (None, self\<lparr>logger := Some ''__main__''\<rparr>, w\<lparr>logging_configured := True\<rparr>)"

definition required_interaction_cols :: "string list" where
  "required_interaction_cols = [''user_id'', ''item_id'', ''rating'']"

definition required_metadata_cols :: "string list" where
  "required_metadata_cols = [''item_id'', ''description'']"

text \<open>
  \<^verbatim>\<open>_load_data\<close>: both files must exist, both tables are read and stored, the required
  columns are checked, and missing descriptions become the empty string. Nothing here
  looks at a rating or at the number of rows.
\<close>

definition load_data :: "string \<Rightarrow> string \<Rightarrow> HybridRecommender \<Rightarrow> world \<Rightarrow> outcome" where
  "load_data interactions_path metadata_path self w =
     (case interaction_files w interactions_path of
        None \<Rightarrow>
          (Some (FileNotFoundError (''Interactions file not found: '' @ interactions_path)), self, w)
      | Some idf \<Rightarrow>
          (case metadata_files w metadata_path of
             None \<Rightarrow>
               (Some (FileNotFoundError (''Metadata file not found: '' @ metadata_path)), self, w)
           | Some mdf \<Rightarrow>
               let self1 = self\<lparr>interactions := Some idf, item_data := Some mdf\<rparr>
               in if \<not> list_all (\<lambda>col. col \<in> set (columns idf)) required_interaction_cols then
                    (Some (ValueError
                       ''Interactions data missing required columns: ['user_id', 'item_id', 'rating']''),
                     self1, w)
                  else if \<not> list_all (\<lambda>col. col \<in> set (columns mdf)) required_metadata_cols then
                    (Some (ValueError
                       ''Item metadata missing required columns: ['item_id', 'description']''),
                     self1, w)
                  else
                    logger_call ''INFO'' ''Data loaded successfully''
                      (self1\<lparr>item_data := Some (mdf\<lparr>rows :=
                          map (\<lambda>it. it\<lparr>description := Some (fillna [] (description it))\<rparr>)
                            (rows mdf)\<rparr>)\<rparr>) w))"

text \<open>
  \<^verbatim>\<open>_init_collaborative_filtering\<close>: the interactions go to the library as they were
  read; \<^verbatim>\<open>Reader(rating_scale=(1, 5))\<close> declares the scale to the library and checks
  nothing in this code.
\<close>

definition init_collaborative_filtering :: "library \<Rightarrow> HybridRecommender \<Rightarrow> world \<Rightarrow> outcome" where
  "init_collaborative_filtering lib self w =
     and_then (logger_call ''INFO'' ''Initializing collaborative filtering model'' self w)
       (\<lambda>self w.
          case interactions self of
            None \<Rightarrow> (Some (AttributeError ''interactions''), self, w)
          | Some idf \<Rightarrow>
              (case train_test_split lib (rows idf) of
                 Inl e \<Rightarrow> (Some e, self, w)
               | Inr (trainset, testset) \<Rightarrow>
                   (case svd_fit lib (svd_new lib) trainset of
                      Inl e \<Rightarrow> (Some e, self\<lparr>cf_model := Some (svd_new lib)\<rparr>, w)
                    | Inr m \<Rightarrow>
                        (case svd_test_rmse lib m testset of
                           Inl e \<Rightarrow> (Some e, self\<lparr>cf_model := Some m\<rparr>, w)
                         | Inr x \<Rightarrow>
                             logger_call ''INFO'' (''CF model trained - RMSE: '' @ format_rmse lib x)
                               (self\<lparr>cf_model := Some m\<rparr>) w))))"

definition init_content_based_filtering :: "library \<Rightarrow> HybridRecommender \<Rightarrow> world \<Rightarrow> outcome" where
  "init_content_based_filtering lib self w =
     and_then (logger_call ''INFO'' ''Initializing content-based filtering'' self w)
       (\<lambda>self w.
          let tf = \<lparr>stop_words = ''english'', vocabulary = None\<rparr>;
              self1 = self\<lparr>tfidf := Some tf\<rparr>
          in case item_data self1 of
               None \<Rightarrow> (Some (AttributeError ''item_data''), self1, w)
             | Some mdf \<Rightarrow>
                 (case tfidf_fit_transform lib tf (map (\<lambda>it. fillna [] (description it)) (rows mdf)) of
                    Inl e \<Rightarrow> (Some e, self1, w)
                  | Inr (tf', m) \<Rightarrow> (None, self1\<lparr>tfidf := Some tf', tfidf_matrix := Some m\<rparr>, w)))"

definition calculate_similarity_matrix :: "library \<Rightarrow> HybridRecommender \<Rightarrow> world \<Rightarrow> outcome" where
  "calculate_similarity_matrix lib self w =
     and_then (logger_call ''INFO'' ''Calculating item similarity matrix'' self w)
       (\<lambda>self w.
          case tfidf_matrix self of
            None \<Rightarrow> (Some (AttributeError ''tfidf_matrix''), self, w)
          | Some m \<Rightarrow> (None, self\<lparr>cosine_sim := Some (linear_kernel lib m m)\<rparr>, w))"

text \<open>
  \<^verbatim>\<open>__init__\<close>, on the fresh instance: the range check of \<open>alpha\<close> is its first statement;
  an exception of the four loading and training steps is logged and raised again.
\<close>

definition init :: "library \<Rightarrow> string \<Rightarrow> string \<Rightarrow> real \<Rightarrow> world \<Rightarrow> outcome" where
  "init lib interactions_path metadata_path a w =
     (if \<not> (0 \<le> a \<and> a \<le> 1) then
        (Some (ValueError ''Alpha must be between 0 and 1''), new_instance, w)
      else
        and_then (setup_logging (new_instance\<lparr>alpha := Some a\<rparr>) w) (\<lambda>self w.
        and_then (logger_call ''INFO'' ''Initializing HybridRecommender'' self w) (\<lambda>self w.
          case and_then (and_then (and_then
                 (load_data interactions_path metadata_path self w)
                 (init_collaborative_filtering lib))
                 (init_content_based_filtering lib))
                 (calculate_similarity_matrix lib) of
            (None, self', w') \<Rightarrow> (None, self', w')
          | (Some e, self', w') \<Rightarrow>
              (case logger_call ''ERROR'' (''Initialization failed: '' @ exc_msg e) self' w' of
                 (None, self'', w'') \<Rightarrow> (Some e, self'', w'')
               | (Some e', self'', w'') \<Rightarrow> (Some e', self'', w'')))))"

section \<open>Persistence\<close>

text \<open>
  \<^verbatim>\<open>save_model\<close> reads the five attributes, dumps the dictionary, then logs:
  the file is written before \<^verbatim>\<open>self.logger\<close> is read. The dump raises when the
  dictionary cannot be pickled or the path cannot be written (an OSError).
  \<^verbatim>\<open>load_model\<close> builds an instance with \<^verbatim>\<open>cls.__new__\<close> and sets these five
  attributes only: no logger, no interactions, no TF-IDF matrix. It takes no training
  library: nothing is trained again.
\<close>

definition OSError :: "string \<Rightarrow> exception" where
  "OSError msg = Exception ''OSError'' msg"

definition joblib_dump :: "joblib \<Rightarrow> model_data \<Rightarrow> string \<Rightarrow> world \<Rightarrow> exception + world" where
  "joblib_dump jl md path w =
     (case dumps jl md of
        Inl e \<Rightarrow> Inl e
      | Inr bytes \<Rightarrow>
          if writable w path then Inr (w\<lparr>model_files := (model_files w)(path := Some bytes)\<rparr>)
          else Inl (OSError path))"

definition joblib_load :: "joblib \<Rightarrow> string \<Rightarrow> world \<Rightarrow> exception + model_data" where
  "joblib_load jl path w =
     (case model_files w path of
        None \<Rightarrow> Inl (FileNotFoundError path)
      | Some bytes \<Rightarrow> loads jl bytes)"

definition save_model :: "joblib \<Rightarrow> string \<Rightarrow> HybridRecommender \<Rightarrow> world \<Rightarrow> outcome" where
  "save_model jl path self w =
     (case alpha self of None \<Rightarrow> (Some (AttributeError ''alpha''), self, w) | Some a \<Rightarrow>
      case tfidf self of None \<Rightarrow> (Some (AttributeError ''tfidf''), self, w) | Some tf \<Rightarrow>
      case cf_model self of None \<Rightarrow> (Some (AttributeError ''cf_model''), self, w) | Some m \<Rightarrow>
      case cosine_sim self of None \<Rightarrow> (Some (AttributeError ''cosine_sim''), self, w) | Some sim \<Rightarrow>
      case item_data self of None \<Rightarrow> (Some (AttributeError ''item_data''), self, w) | Some idata \<Rightarrow>
      case joblib_dump jl \<lparr>md_alpha = a, md_tfidf = tf, md_cf_model = m, md_cosine_sim = sim,
                           md_item_data = idata\<rparr> path w of
        Inl e \<Rightarrow> (Some e, self, w)
      | Inr w' \<Rightarrow> logger_call ''INFO'' (''Model saved to '' @ path) self w')"

definition load_model :: "joblib \<Rightarrow> string \<Rightarrow> world \<Rightarrow> exception + HybridRecommender" where
  "load_model jl path w =
     (case joblib_load jl path w of
        Inl e \<Rightarrow> Inl e
      | Inr md \<Rightarrow>
          Inr (new_instance\<lparr>alpha := Some (md_alpha md), tfidf := Some (md_tfidf md),
                 cf_model := Some (md_cf_model md), cosine_sim := Some (md_cosine_sim md),
                 item_data := Some (md_item_data md)\<rparr>))"

section \<open>Example data\<close>

text \<open>
  A catalog of three items, two of them with the same description, so that their
  similarity rows agree; a collaborative model that predicts the same rating for every
  pair, as a latent-factor model does for users and items it has not seen.
\<close>

definition demo_catalog :: "item dataframe" where
  "demo_catalog =
     \<lparr>columns = [''item_id'', ''description''],
      rows = [\<lparr>item_id = 2, description = Some ''space opera''\<rparr>,
              \<lparr>item_id = 1, description = Some ''space opera''\<rparr>,
              \<lparr>item_id = 3, description = Some ''romantic drama''\<rparr>]\<rparr>"

definition demo_interactions :: "interaction dataframe" where
  "demo_interactions =
     \<lparr>columns = [''user_id'', ''item_id'', ''rating''],
      rows = [\<lparr>item_id = 2, user_id = 7, rating = 3\<rparr>,
              \<lparr>item_id = 1, user_id = 8, rating = 3\<rparr>]\<rparr>"

definition demo_model :: SVD where
  "demo_model = \<lparr>predict_est = (\<lambda>uid iid. 3)\<rparr>"

definition demo_tfidf :: TfidfVectorizer where
  "demo_tfidf = \<lparr>stop_words = ''english'', vocabulary = Some [''drama'', ''opera'', ''romantic'', ''space'']\<rparr>"

definition demo_cosine_sim :: "real list list" where
  "demo_cosine_sim = [[1, 1, 0], [1, 1, 0], [0, 0, 1]]"

definition demo_tfidf_matrix :: "real list list" where
  "demo_tfidf_matrix = [[0, 1, 0, 1], [0, 1, 0, 1], [1, 0, 1, 0]]"

definition demo_recommender :: HybridRecommender where
  "demo_recommender =
     \<lparr>alpha = Some (1 / 2), logger = Some ''__main__'', interactions = Some demo_interactions,
      item_data = Some demo_catalog, cf_model = Some demo_model, tfidf = Some demo_tfidf,
      tfidf_matrix = Some demo_tfidf_matrix, cosine_sim = Some demo_cosine_sim\<rparr>"

text \<open>
  A library that returns the fitted values of the example, whatever the ratings are. Its
  split holds out the first quarter of the interactions, rounded up, as the test set, and
  refuses a table without rows with a ValueError, as the size validation of a split with
  \<^verbatim>\<open>test_size=0.25\<close> does. A world that holds the two CSV files; a second world
  whose interactions carry a rating of 9, outside the scale 1 to 5; a third whose
  interactions file has the header only.
\<close>

definition demo_library :: library where
  "demo_library =
     \<lparr>train_test_split = (\<lambda>rs.
        if rs = [] then
          Inl (ValueError ''test_size=0.25 should be less than the number of ratings 0'')
        else Inr (drop ((length rs + 3) div 4) rs, take ((length rs + 3) div 4) rs)),
      svd_new = \<lparr>predict_est = (\<lambda>uid iid. 0)\<rparr>,
      svd_fit = (\<lambda>m trainset. Inr demo_model),
      svd_test_rmse = (\<lambda>m testset. Inr 0),
      format_rmse = (\<lambda>x. ''0.0000''),
      tfidf_fit_transform = (\<lambda>tf docs. Inr (demo_tfidf, demo_tfidf_matrix)),
      linear_kernel = (\<lambda>a b. demo_cosine_sim)\<rparr>"

definition demo_world :: world where
  "demo_world =
     \<lparr>interaction_files = [''user_item_interactions.csv'' \<mapsto> demo_interactions],
      metadata_files = [''item_metadata.csv'' \<mapsto> demo_catalog],
      model_files = Map.empty,
      writable = (\<lambda>path. True),
      logging_configured = False,
      log_records = []\<rparr>"

definition out_of_scale_interactions :: "interaction dataframe" where
  "out_of_scale_interactions =
     \<lparr>columns = [''user_id'', ''item_id'', ''rating''],
      rows = [\<lparr>item_id = 2, user_id = 7, rating = 9\<rparr>,
              \<lparr>item_id = 1, user_id = 7, rating = 3\<rparr>,
              \<lparr>item_id = 1, user_id = 8, rating = 4\<rparr>,
              \<lparr>item_id = 3, user_id = 8, rating = 5\<rparr>]\<rparr>"

definition out_of_scale_world :: world where
  "out_of_scale_world =
     demo_world\<lparr>interaction_files := [''user_item_interactions.csv'' \<mapsto> out_of_scale_interactions]\<rparr>"

definition no_interactions :: "interaction dataframe" where
  "no_interactions = \<lparr>columns = [''user_id'', ''item_id'', ''rating''], rows = []\<rparr>"

definition no_interactions_world :: world where
  "no_interactions_world =
     demo_world\<lparr>interaction_files := [''user_item_interactions.csv'' \<mapsto> no_interactions]\<rparr>"

text \<open>
  The dictionary \<^verbatim>\<open>save_model\<close> builds for the example instance, a \<^verbatim>\<open>joblib\<close>
  that writes and restores it, and the instance \<^verbatim>\<open>load_model\<close> builds from it.
\<close>

definition demo_model_data :: model_data where
  "demo_model_data =
     \<lparr>md_alpha = 1 / 2, md_tfidf = demo_tfidf, md_cf_model = demo_model,
      md_cosine_sim = demo_cosine_sim, md_item_data = demo_catalog\<rparr>"

definition demo_joblib :: joblib where
  "demo_joblib =
     \<lparr>dumps = (\<lambda>md. Inr ''demo snapshot''),
      loads = (\<lambda>bytes. if bytes = ''demo snapshot'' then Inr demo_model_data
                       else Inl (Exception ''UnpicklingError'' ''invalid load key''))\<rparr>"

definition demo_loaded :: HybridRecommender where
  "demo_loaded =
     \<lparr>alpha = Some (1 / 2), logger = None, interactions = None,
      item_data = Some demo_catalog, cf_model = Some demo_model, tfidf = Some demo_tfidf,
      tfidf_matrix = None, cosine_sim = Some demo_cosine_sim\<rparr>"

section \<open>Facts about the library operations\<close>

lemma set_unique: "set (unique xs) = set xs"
  by (induction xs rule: unique.induct) auto

lemma unique_distinct: "distinct xs \<Longrightarrow> unique xs = xs"
proof (induction xs)
  case Nil
  then show ?case by simp
next
  case (Cons x xs)
  then have "filter (\<lambda>y. y \<noteq> x) xs = xs"
    by (auto intro: filter_True)
  with Cons show ?case by simp
qed

lemma set_slice_1_to: "set (slice_1_to xs stop) \<subseteq> set xs"
  unfolding slice_1_to_def Let_def
  by (meson set_drop_subset set_take_subset subset_trans)

lemma length_slice_1_to:
  "0 \<le> stop \<Longrightarrow> length (slice_1_to xs stop) = min (nat stop) (length xs) - 1"
  by (auto simp: slice_1_to_def Let_def min_def)

lemma sorted_wrt_slice_1_to: "sorted_wrt P xs \<Longrightarrow> sorted_wrt P (slice_1_to xs stop)"
  unfolding slice_1_to_def Let_def
  by (intro sorted_wrt_drop sorted_wrt_take)

lemma set_sorted_reverse: "set (sorted_reverse k xs) = set xs"
  by (simp add: sorted_reverse_def)

lemma length_sorted_reverse: "length (sorted_reverse k xs) = length xs"
  by (simp add: sorted_reverse_def)

lemma sorted_wrt_sorted_reverse: "sorted_wrt (\<lambda>a b. k b \<le> k a) (sorted_reverse k xs)"
proof -
  have "sorted (map (\<lambda>x. - k x) (sort_key (\<lambda>x. - k x) xs))"
    by (rule sorted_sort_key)
  then show ?thesis
    by (simp add: sorted_reverse_def sorted_map)
qed

lemma sim_scores_of_positions:
  "(j, s) \<in> set (sim_scores_of sim_row n) \<Longrightarrow> j < length sim_row \<and> s = sim_row ! j"
proof -
  assume "(j, s) \<in> set (sim_scores_of sim_row n)"
  then have "(j, s) \<in> set (enumerate 0 sim_row)"
    using set_slice_1_to set_sorted_reverse unfolding sim_scores_of_def by fastforce
  then show ?thesis
    by (simp add: in_set_enumerate_eq)
qed

lemma length_sim_scores_of:
  "0 \<le> n \<Longrightarrow> length (sim_scores_of sim_row n) = min (nat n) (length sim_row - 1)"
  by (auto simp: sim_scores_of_def length_slice_1_to length_sorted_reverse min_def nat_add_distrib)


lemma cb_recommendations_keys:
  assumes "cb_recommendations self idata iid n = Inr cb_recs"
  shows "fst ` set cb_recs \<subseteq> item_id ` set (rows idata)"
proof -
  from assms obtain sim idx where
    bound: "\<forall>j \<in> set (map fst (sim_scores_of (sim ! idx) n)). j < length (rows idata)" and
    cb: "cb_recs = zip (map (\<lambda>j. item_id (rows idata ! j)) (map fst (sim_scores_of (sim ! idx) n)))
                       (map snd (sim_scores_of (sim ! idx) n))"
    by (auto simp: cb_recommendations_def Let_def not_le
             split: list.splits option.splits if_splits)
  have "fst ` set cb_recs \<subseteq> set (map (\<lambda>j. item_id (rows idata ! j)) (map fst (sim_scores_of (sim ! idx) n)))"
    unfolding cb by (auto dest: set_zip_leftD)
  also have "\<dots> \<subseteq> item_id ` set (rows idata)"
    using bound by auto
  finally show ?thesis .
qed

lemma cb_recommendations_returns:
  assumes "iid \<in> item_id ` set (rows idata)" "cosine_sim self = Some sim"
    "similarity_shape (length (rows idata)) sim"
  shows "\<exists>cb_recs. cb_recommendations self idata iid n = Inr cb_recs"
proof -
  let ?ps = "filter (\<lambda>j. item_id (rows idata ! j) = iid) [0..<length (rows idata)]"
  from assms(1) obtain j where "j < length (rows idata)" "item_id (rows idata ! j) = iid"
    by (auto simp: in_set_conv_nth)
  then have "j \<in> set ?ps" by simp
  then obtain idx rest where ps: "?ps = idx # rest"
    by (cases ?ps) auto
  then have "idx \<in> set ?ps" by simp
  then have idx: "idx < length (rows idata)" by simp
  with assms(3) have len: "idx < length sim" "length (sim ! idx) = length (rows idata)"
    by (auto simp: similarity_shape_def list_all_length)
  have "\<not> (\<exists>j \<in> set (map fst (sim_scores_of (sim ! idx) n)). length (rows idata) \<le> j)"
    using sim_scores_of_positions [of _ _ "sim ! idx" n] len by fastforce
  then show ?thesis
    using ps assms(2) len by (simp add: cb_recommendations_def Let_def)
qed

lemma cb_recommendations_absent:
  assumes "iid \<notin> item_id ` set (rows idata)"
  shows "cb_recommendations self idata iid n = Inl (IndexError ''list index out of range'')"
proof -
  have "filter (\<lambda>j. item_id (rows idata ! j) = iid) [0..<length (rows idata)] = []"
    using assms by (auto simp: filter_empty_conv)
  then show ?thesis
    by (simp add: cb_recommendations_def)
qed

lemma merge_outer_cf:
  assumes "(k, cf, cb) \<in> set (merge_outer left right)" "k \<in> fst ` set left"
  shows "\<exists>c. cf = Some c \<and> (k, c) \<in> set left"
proof -
  from assms(2) have ne: "filter (\<lambda>x. fst x = k) left \<noteq> []"
    by (auto simp: filter_empty_conv)
  from assms(1) obtain k' where
    "(k, cf, cb) \<in> set (let l = filter (\<lambda>x. fst x = k') left;
             r = filter (\<lambda>y. fst y = k') right
         in if r = [] then map (\<lambda>x. (k', Some (snd x), None)) l
            else if l = [] then map (\<lambda>y. (k', None, Some (snd y))) r
            else concat (map (\<lambda>x. map (\<lambda>y. (k', Some (snd x), Some (snd y))) r) l))"
    unfolding merge_outer_def by auto
  then show ?thesis
    using ne by (auto simp: Let_def split: if_splits)
qed

lemma merge_outer_keys:
  assumes "(k, cf, cb) \<in> set (merge_outer left right)"
  shows "k \<in> fst ` set left \<union> fst ` set right"
  using assms unfolding merge_outer_def by (auto simp: Let_def split: if_splits)

section \<open>Facts about the steps of \<^verbatim>\<open>recommend_items\<close>\<close>

lemma recommend_items_Inr:
  assumes "recommend_items self uid seed n = Inr out"
  obtains idata cf_recs cb_recs recs where
    "item_data self = Some idata"
    "cf_predictions self uid (unique (map item_id (rows idata))) = Inr cf_recs"
    "content_based_recs self idata seed n = Inr cb_recs"
    "combine self cf_recs cb_recs = Inr recs"
    "out = merge_item_data (head n (sort_values_desc recs)) idata"
  using assms by (auto simp: recommend_items_def split: option.splits sum.splits)

lemma out_rows:
  assumes "r \<in> set (rows (merge_item_data (head n (sort_values_desc recs)) idata))"
  shows "\<exists>s \<in> set (rows recs). \<exists>it \<in> set (rows idata). r = join_row s it \<and> item_id it = item_id s"
proof -
  from assms obtain s it where
    s: "s \<in> set (rows (head n (sort_values_desc recs)))" and
    it: "it \<in> set (rows idata)" "item_id it = item_id s" "r = join_row s it"
    by (auto simp: merge_item_data_def)
  from s have "s \<in> set (rows (sort_values_desc recs))"
    by (auto simp: head_def dest: in_set_takeD split: if_splits)
  then have "s \<in> set (rows recs)"
    by (simp add: sort_values_desc_def)
  with it show ?thesis by blast
qed

lemma combine_empty:
  assumes "combine self cf_recs [] = Inr recs" "s \<in> set (rows recs)"
  shows "cb_score s = None \<and> (\<exists>c. cf_score s = Some c \<and> hybrid_score s = c \<and> (item_id s, c) \<in> set cf_recs)"
  using assms by (auto simp: combine_def)

lemma combine_merged:
  assumes "combine self cf_recs cb_recs = Inr recs" "cb_recs \<noteq> []" "s \<in> set (rows recs)"
  shows "\<exists>a. alpha self = Some a \<and>
           hybrid_score s = a * fillna 0 (cf_score s) + (1 - a) * fillna 0 (cb_score s) \<and>
           (item_id s, cf_score s, cb_score s) \<in> set (merge_outer cf_recs cb_recs)"
  using assms by (auto simp: combine_def split: option.splits)

lemma join_row_simps [simp]:
  "item_id (join_row s it) = item_id s"
  "cf_score (join_row s it) = cf_score s"
  "cb_score (join_row s it) = cb_score s"
  "hybrid_score (join_row s it) = hybrid_score s"
  "metadata (join_row s it) = it"
  by (simp_all add: join_row_def)


lemma sorted_rows_sort_values_desc:
  "sorted_wrt (\<lambda>a b. hybrid_score b \<le> hybrid_score a) (rows (sort_values_desc df))"
proof -
  have "sorted (map (\<lambda>r. - hybrid_score r) (sort_key (\<lambda>r. - hybrid_score r) (rows df)))"
    by (rule sorted_sort_key)
  then show ?thesis
    by (simp add: sort_values_desc_def sorted_map)
qed

lemma sorted_rows_head:
  "sorted_wrt P (rows df) \<Longrightarrow> sorted_wrt P (rows (head n df))"
  by (simp add: head_def sorted_wrt_take)

lemma sorted_join_rows:
  fixes xs :: "scored list"
  assumes "sorted_wrt (\<lambda>a b. hybrid_score b \<le> hybrid_score a) xs"
  shows "sorted_wrt (\<lambda>a b. hybrid_score b \<le> hybrid_score a)
           (concat (map (\<lambda>s. map (join_row s) (g s)) xs))"
  using assms
proof (induction xs)
  case Nil
  then show ?case by simp
next
  case (Cons x xs)
  then have below: "\<forall>s \<in> set xs. hybrid_score s \<le> hybrid_score x"
    and rest: "sorted_wrt (\<lambda>a b. hybrid_score b \<le> hybrid_score a)
           (concat (map (\<lambda>s. map (join_row s) (g s)) xs))"
    by auto
  have group: "sorted_wrt (\<lambda>a b. hybrid_score b \<le> hybrid_score a) (map (join_row x) (g x))"
    by (simp add: sorted_wrt_map)
  have cross: "hybrid_score b \<le> hybrid_score a"
    if "a \<in> set (map (join_row x) (g x))"
      "b \<in> set (concat (map (\<lambda>s. map (join_row s) (g s)) xs))" for a b
    using that below by auto
  show ?case
    using group rest cross by (simp add: sorted_wrt_append)
qed

lemma rows_sorted_by_hybrid_score:
  assumes "recommend_items self uid seed n = Inr out"
  shows "sorted_wrt (\<lambda>a b. hybrid_score b \<le> hybrid_score a) (rows out)"
proof -
  from assms obtain idata recs where
    out: "out = merge_item_data (head n (sort_values_desc recs)) idata"
    by (rule recommend_items_Inr)
  have "sorted_wrt (\<lambda>a b. hybrid_score b \<le> hybrid_score a) (rows (head n (sort_values_desc recs)))"
    by (intro sorted_rows_head sorted_rows_sort_values_desc)
  then show ?thesis
    unfolding out merge_item_data_def by (simp add: sorted_join_rows)
qed

lemma cf_predictions_returns:
  assumes "cf_model self = Some m"
  shows "cf_predictions self uid ks = Inr (map (\<lambda>iid. (iid, predict_est m uid iid)) ks)"
  using assms by (simp add: cf_predictions_def)

lemma combine_returns:
  assumes "alpha self = Some a"
  shows "\<exists>recs. combine self cf_recs cb_recs = Inr recs"
  using assms by (simp add: combine_def)

lemma recommend_items_returns:
  assumes "item_data self = Some idata" "cf_model self = Some m"
    "combine self (map (\<lambda>iid. (iid, predict_est m uid iid)) (unique (map item_id (rows idata)))) cb_recs = Inr recs"
    "content_based_recs self idata seed n = Inr cb_recs"
  shows "recommend_items self uid seed n = Inr (merge_item_data (head n (sort_values_desc recs)) idata)"
  using assms by (simp add: recommend_items_def cf_predictions_returns)

lemma at_most_one_match:
  fixes its :: "item list"
  assumes "distinct (map item_id its)"
  shows "length (filter (\<lambda>it. item_id it = k) its) \<le> 1"
  using assms
proof (induction its)
  case Nil
  then show ?case by simp
next
  case (Cons x its)
  show ?case
  proof (cases "item_id x = k")
    case True
    with Cons.prems have "item_id x \<notin> item_id ` set its" by simp
    then have "\<forall>it \<in> set its. item_id it \<noteq> item_id x" by (metis image_eqI)
    with True have "filter (\<lambda>it. item_id it = k) its = []"
      by (simp add: filter_empty_conv)
    with True show ?thesis by simp
  next
    case False
    with Cons show ?thesis by simp
  qed
qed

lemma length_rows_merge_item_data:
  assumes "distinct (map item_id (rows idata))"
  shows "length (rows (merge_item_data recs idata)) \<le> length (rows recs)"
proof -
  have "length (concat (map (\<lambda>s. map (join_row s)
          (filter (\<lambda>it. item_id it = item_id s) (rows idata))) xs)) \<le> length xs" for xs :: "scored list"
  proof (induction xs)
    case Nil
    then show ?case by simp
  next
    case (Cons x xs)
    have "length (filter (\<lambda>it. item_id it = item_id x) (rows idata)) \<le> 1"
      by (rule at_most_one_match [OF assms])
    with Cons show ?case by simp
  qed
  then show ?thesis
    by (simp add: merge_item_data_def)
qed

lemma length_rows_head:
  "0 \<le> n \<Longrightarrow> length (rows (head n df)) \<le> nat n"
  by (simp add: head_def)

lemma rows_merge_empty_catalog:
  "rows idata = [] \<Longrightarrow> rows (merge_item_data recs idata) = []"
  by (simp add: merge_item_data_def)

lemma recommend_items_cong:
  assumes "item_data s1 = item_data s2" "cf_model s1 = cf_model s2"
    "cosine_sim s1 = cosine_sim s2" "alpha s1 = alpha s2"
  shows "recommend_items s1 uid seed n = recommend_items s2 uid seed n"
proof -
  have cf: "cf_predictions s1 = cf_predictions s2"
    by (simp add: fun_eq_iff cf_predictions_def assms)
  have cbr: "cb_recommendations s1 = cb_recommendations s2"
    by (simp add: fun_eq_iff cb_recommendations_def assms cong: list.case_cong)
  have cb: "content_based_recs s1 = content_based_recs s2"
    by (simp add: fun_eq_iff content_based_recs_def cbr cong: option.case_cong)
  have co: "combine s1 = combine s2"
    by (simp add: fun_eq_iff combine_def assms)
  show ?thesis
    by (simp add: recommend_items_def cf cb co assms split: option.splits sum.splits)
qed

section \<open>Facts about construction\<close>

lemma init_succeeds:
  assumes "0 \<le> a" "a \<le> 1"
    and "interaction_files w interactions_path = Some idf"
    and "metadata_files w metadata_path = Some mdf"
    and "list_all (\<lambda>col. col \<in> set (columns idf)) required_interaction_cols"
    and "list_all (\<lambda>col. col \<in> set (columns mdf)) required_metadata_cols"
    and "train_test_split lib (rows idf) = Inr (trainset, testset)"
    and "svd_fit lib (svd_new lib) trainset = Inr m"
    and "svd_test_rmse lib m testset = Inr x"
    and "tfidf_fit_transform lib \<lparr>stop_words = ''english'', vocabulary = None\<rparr>
           (map (\<lambda>it. fillna [] (description it)) (rows mdf)) = Inr (tf, mat)"
  shows "init lib interactions_path metadata_path a w =
     (None,
      \<lparr>alpha = Some a, logger = Some ''__main__'', interactions = Some idf,
       item_data = Some (mdf\<lparr>rows :=
           map (\<lambda>it. it\<lparr>description := Some (fillna [] (description it))\<rparr>) (rows mdf)\<rparr>),
       cf_model = Some m, tfidf = Some tf, tfidf_matrix = Some mat,
       cosine_sim = Some (linear_kernel lib mat mat)\<rparr>,
      w\<lparr>logging_configured := True,
        log_records := log_records w @
          [(''INFO'', ''Initializing HybridRecommender''),
           (''INFO'', ''Data loaded successfully''),
           (''INFO'', ''Initializing collaborative filtering model''),
           (''INFO'', ''CF model trained - RMSE: '' @ format_rmse lib x),
           (''INFO'', ''Initializing content-based filtering''),
           (''INFO'', ''Calculating item similarity matrix'')]\<rparr>)"
proof -
  have docs: "(\<lambda>it. fillna [] (description it)) \<circ>
      (\<lambda>it::item. it\<lparr>description := Some (fillna [] (description it))\<rparr>) =
    (\<lambda>it. fillna [] (description it))"
    by (simp add: fun_eq_iff fillna_def)
  show ?thesis
    using assms
    by (simp add: docs Let_def init_def and_then_def setup_logging_def logger_call_def load_data_def
        init_collaborative_filtering_def init_content_based_filtering_def
        calculate_similarity_matrix_def new_instance_def)
qed

lemma init_alpha_out_of_range:
  assumes "\<not> (0 \<le> a \<and> a \<le> 1)"
  shows "init lib interactions_path metadata_path a w =
     (Some (ValueError ''Alpha must be between 0 and 1''), new_instance, w)"
  using assms by (simp add: init_def)

lemma init_returns_trained:
  assumes "init lib interactions_path metadata_path a w0 = (None, self, w1)"
  shows "\<exists>a' lg idata m tf sim. alpha self = Some a' \<and> logger self = Some lg \<and>
           item_data self = Some idata \<and> cf_model self = Some m \<and> tfidf self = Some tf \<and>
           cosine_sim self = Some sim"
  using assms
  by (auto simp: init_def and_then_def setup_logging_def logger_call_def load_data_def
        init_collaborative_filtering_def init_content_based_filtering_def
        calculate_similarity_matrix_def new_instance_def Let_def
      split: if_splits option.splits sum.splits prod.splits)

section \<open>Evaluation at the example\<close>

text \<open>The definitions a closed evaluation unfolds.\<close>

lemmas demo_defs = demo_recommender_def demo_catalog_def demo_model_def demo_cosine_sim_def

lemmas eval_defs = recommend_items_def content_based_recs_def cb_recommendations_def
      cf_predictions_def combine_def merge_outer_def sim_scores_of_def sorted_reverse_def
      slice_1_to_def sort_values_desc_def head_def merge_item_data_def merge_columns_def
      join_row_def fillna_def IndexError_def

lemmas demo_init_defs = init_def and_then_def setup_logging_def logger_call_def load_data_def
  init_collaborative_filtering_def init_content_based_filtering_def
  calculate_similarity_matrix_def required_interaction_cols_def required_metadata_cols_def
  new_instance_def fillna_def Let_def
  demo_library_def demo_world_def demo_catalog_def demo_interactions_def demo_recommender_def
  out_of_scale_world_def out_of_scale_interactions_def

lemmas demo_persistence_defs = save_model_def load_model_def joblib_dump_def joblib_load_def
  logger_call_def new_instance_def AttributeError_def
  demo_joblib_def demo_model_data_def demo_loaded_def demo_recommender_def demo_world_def

section \<open>The hybrid score\<close>

text \<open>
  C1 (as amended). For every call of \<^verbatim>\<open>recommend_items\<close> that returns, and every
  returned row: when the frame of content-based candidates is not empty, the row's
  hybrid score is \<open>alpha * cf_score + (1 - alpha) * cb_score\<close>, a missing score counting as
  0; when it is empty, which it is whenever no seed item is given, the hybrid score is
  the collaborative score itself, not weighted by alpha, and the row has no content score.
\<close>

theorem hybrid_score_by_branch:
  assumes "recommend_items self uid seed n = Inr out"
    and "item_data self = Some idata"
    and "r \<in> set (rows out)"
  shows "(\<forall>cb_recs. content_based_recs self idata seed n = Inr cb_recs \<and> cb_recs \<noteq> [] \<longrightarrow>
            (\<exists>a. alpha self = Some a \<and>
               hybrid_score r = a * fillna 0 (cf_score r) + (1 - a) * fillna 0 (cb_score r))) \<and>
         (content_based_recs self idata seed n = Inr [] \<longrightarrow>
            hybrid_score r = fillna 0 (cf_score r) \<and> cb_score r = None) \<and>
         (seed = None \<longrightarrow> content_based_recs self idata seed n = Inr [])"
proof -
  from assms(1) obtain idata' cf_recs cb_recs recs where
    st: "item_data self = Some idata'"
      "content_based_recs self idata' seed n = Inr cb_recs"
      "combine self cf_recs cb_recs = Inr recs"
      "out = merge_item_data (head n (sort_values_desc recs)) idata'"
    by (rule recommend_items_Inr)
  with assms(2) have [simp]: "idata' = idata" by simp
  from assms(3) st(4) obtain s it where
    s: "s \<in> set (rows recs)" and r: "r = join_row s it"
    using out_rows by blast
  have merged: "\<exists>a. alpha self = Some a \<and>
      hybrid_score r = a * fillna 0 (cf_score r) + (1 - a) * fillna 0 (cb_score r)"
    if "cb_recs \<noteq> []"
    using combine_merged [OF st(3) that s] r by auto
  have plain: "hybrid_score r = fillna 0 (cf_score r) \<and> cb_score r = None"
    if "cb_recs = []"
    using combine_empty [of self cf_recs recs s] st(3) s r that by (auto simp: fillna_def)
  show ?thesis
    using st(2) merged plain by (auto simp: content_based_recs_def)
qed

text \<open>
  The theorem at the example instance, on the first returned row: with seed item 2 and
  \<open>n = 2\<close> (candidates present), and with no seed and \<open>n = 1\<close> (no candidates).
\<close>

theorem hybrid_score_by_branch_witness:
  "recommend_items demo_recommender 42 (Some 2) 2 =
     Inr \<lparr>columns = [''item_id'', ''cf_score'', ''cb_score'', ''hybrid_score'', ''description''],
          rows = [\<lparr>item_id = 1, cf_score = Some 3, cb_score = Some 1, hybrid_score = 2,
                   metadata = \<lparr>item_id = 1, description = Some ''space opera''\<rparr>\<rparr>,
                  \<lparr>item_id = 2, cf_score = Some 3, cb_score = None, hybrid_score = 3 / 2,
                   metadata = \<lparr>item_id = 2, description = Some ''space opera''\<rparr>\<rparr>]\<rparr> \<and>
   item_data demo_recommender = Some demo_catalog \<and>
   content_based_recs demo_recommender demo_catalog (Some 2) 2 = Inr [(1, 1), (3, 0)] \<and>
   alpha demo_recommender = Some (1 / 2) \<and>
   (2::real) = 1 / 2 * fillna 0 (Some 3) + (1 - 1 / 2) * fillna 0 (Some 1) \<and>
   recommend_items demo_recommender 42 None 1 =
     Inr \<lparr>columns = [''item_id'', ''cf_score'', ''hybrid_score'', ''description''],
          rows = [\<lparr>item_id = 2, cf_score = Some 3, cb_score = None, hybrid_score = 3,
                   metadata = \<lparr>item_id = 2, description = Some ''space opera''\<rparr>\<rparr>]\<rparr> \<and>
   content_based_recs demo_recommender demo_catalog None 1 = Inr [] \<and>
   (3::real) = fillna 0 (Some 3)"
  using hybrid_score_by_branch [of demo_recommender 42 "Some 2" 2
      "\<lparr>columns = [''item_id'', ''cf_score'', ''cb_score'', ''hybrid_score'', ''description''],
          rows = [\<lparr>item_id = 1, cf_score = Some 3, cb_score = Some 1, hybrid_score = 2,
                   metadata = \<lparr>item_id = 1, description = Some ''space opera''\<rparr>\<rparr>,
                  \<lparr>item_id = 2, cf_score = Some 3, cb_score = None, hybrid_score = 3 / 2,
                   metadata = \<lparr>item_id = 2, description = Some ''space opera''\<rparr>\<rparr>]\<rparr>"
      demo_catalog
      "\<lparr>item_id = 1, cf_score = Some 3, cb_score = Some 1, hybrid_score = 2,
                   metadata = \<lparr>item_id = 1, description = Some ''space opera''\<rparr>\<rparr>"]
    hybrid_score_by_branch [of demo_recommender 42 None 1
      "\<lparr>columns = [''item_id'', ''cf_score'', ''hybrid_score'', ''description''],
          rows = [\<lparr>item_id = 2, cf_score = Some 3, cb_score = None, hybrid_score = 3,
                   metadata = \<lparr>item_id = 2, description = Some ''space opera''\<rparr>\<rparr>]\<rparr>"
      demo_catalog
      "\<lparr>item_id = 2, cf_score = Some 3, cb_score = None, hybrid_score = 3,
                   metadata = \<lparr>item_id = 2, description = Some ''space opera''\<rparr>\<rparr>"]
  by (simp add: eval_defs demo_defs)

text \<open>
  C1 as stated fails without a seed item: with \<open>alpha = 1/2\<close> the returned row has the
  hybrid score 3, its collaborative score, where the weighted sum with a content score of
  0 is \<open>3/2\<close>.
\<close>

theorem hybrid_score_no_seed_counterexample:
  "alpha demo_recommender = Some (1 / 2) \<and>
   recommend_items demo_recommender 42 None 1 =
     Inr \<lparr>columns = [''item_id'', ''cf_score'', ''hybrid_score'', ''description''],
          rows = [\<lparr>item_id = 2, cf_score = Some 3, cb_score = None, hybrid_score = 3,
                   metadata = \<lparr>item_id = 2, description = Some ''space opera''\<rparr>\<rparr>]\<rparr> \<and>
   (3::real) \<noteq> 1 / 2 * fillna 0 (Some 3) + (1 - 1 / 2) * fillna 0 None"
  by (simp add: eval_defs demo_defs)

section \<open>Persistence round trip\<close>

text \<open>
  For an instance that construction returned, a \<^verbatim>\<open>joblib\<close> that restores what
  it dumps and a path that can be written: \<^verbatim>\<open>save_model\<close> succeeds,
  \<^verbatim>\<open>load_model\<close> returns an instance, and \<^verbatim>\<open>recommend_items\<close> of the loaded
  instance agrees with that of the saved one on every user, seed and \<open>n\<close>.
\<close>

lemma constructed_instance_roundtrip:
  assumes "init lib interactions_path metadata_path a w0 = (None, self, w1)"
    and "\<forall>md. \<exists>bytes. dumps jl md = Inr bytes \<and> loads jl bytes = Inr md"
    and "writable w path"
  shows "\<exists>w'. save_model jl path self w = (None, self, w') \<and>
           (\<exists>self'. load_model jl path w' = Inr self' \<and>
              (\<forall>uid seed n. recommend_items self' uid seed n = recommend_items self uid seed n))"
proof -
  from init_returns_trained [OF assms(1)] obtain a' lg idata m tf sim where
    attrs: "alpha self = Some a'" "logger self = Some lg" "item_data self = Some idata"
      "cf_model self = Some m" "tfidf self = Some tf" "cosine_sim self = Some sim"
    by blast
  let ?md = "\<lparr>md_alpha = a', md_tfidf = tf, md_cf_model = m, md_cosine_sim = sim,
                md_item_data = idata\<rparr>"
  from assms(2) obtain bytes where
    bytes: "dumps jl ?md = Inr bytes" "loads jl bytes = Inr ?md"
    by blast
  let ?w' = "w\<lparr>model_files := (model_files w)(path := Some bytes),
               log_records := log_records w @ [(''INFO'', ''Model saved to '' @ path)]\<rparr>"
  let ?self' = "new_instance\<lparr>alpha := Some a', tfidf := Some tf, cf_model := Some m,
                  cosine_sim := Some sim, item_data := Some idata\<rparr>"
  have save: "save_model jl path self w = (None, self, ?w')"
    by (simp add: save_model_def joblib_dump_def logger_call_def attrs bytes assms(3))
  have load: "load_model jl path ?w' = Inr ?self'"
    by (simp add: load_model_def joblib_load_def bytes)
  have "recommend_items ?self' uid seed n = recommend_items self uid seed n" for uid seed n
    by (rule recommend_items_cong) (simp_all add: attrs new_instance_def)
  with save load show ?thesis by blast
qed

text \<open>
  An instance that \<^verbatim>\<open>load_model\<close> returned has the five trained components and
  no logger; \<^verbatim>\<open>save_model\<close> on it writes the dump and then raises AttributeError
  at \<^verbatim>\<open>self.logger.info\<close>.
\<close>

lemma load_model_Inr:
  assumes "load_model jl path w = Inr self"
  shows "\<exists>md. joblib_load jl path w = Inr md \<and>
    self = new_instance\<lparr>alpha := Some (md_alpha md), tfidf := Some (md_tfidf md),
                 cf_model := Some (md_cf_model md), cosine_sim := Some (md_cosine_sim md),
                 item_data := Some (md_item_data md)\<rparr>"
  using assms by (auto simp: load_model_def split: sum.splits)

lemma save_model_without_logger:
  assumes "alpha self = Some a" "tfidf self = Some tf" "cf_model self = Some m"
    "cosine_sim self = Some sim" "item_data self = Some idata" "logger self = None"
    and "dumps jl \<lparr>md_alpha = a, md_tfidf = tf, md_cf_model = m, md_cosine_sim = sim,
           md_item_data = idata\<rparr> = Inr bytes"
    and "writable w path"
  shows "save_model jl path self w =
     (Some (AttributeError ''logger''), self,
      w\<lparr>model_files := (model_files w)(path := Some bytes)\<rparr>)"
  using assms by (simp add: save_model_def joblib_dump_def logger_call_def)

lemma loaded_instance_cannot_save:
  assumes "load_model jl path0 w0 = Inr self"
    and "\<forall>md. \<exists>bytes. dumps jl md = Inr bytes"
    and "writable w path"
  shows "fst (save_model jl path self w) = Some (AttributeError ''logger'')"
proof -
  from load_model_Inr [OF assms(1)] obtain md :: model_data where
    self: "self = new_instance\<lparr>alpha := Some (md_alpha md), tfidf := Some (md_tfidf md),
                 cf_model := Some (md_cf_model md), cosine_sim := Some (md_cosine_sim md),
                 item_data := Some (md_item_data md)\<rparr>"
    by blast
  from assms(2) obtain bytes where
    "dumps jl \<lparr>md_alpha = md_alpha md, md_tfidf = md_tfidf md, md_cf_model = md_cf_model md,
       md_cosine_sim = md_cosine_sim md, md_item_data = md_item_data md\<rparr> = Inr bytes"
    by blast
  then have "save_model jl path self w =
     (Some (AttributeError ''logger''), self,
      w\<lparr>model_files := (model_files w)(path := Some bytes)\<rparr>)"
    by (intro save_model_without_logger) (simp_all add: self new_instance_def assms(3))
  then show ?thesis by simp
qed

text \<open>
  The example instance is the one construction returns for the example files.
\<close>

lemma demo_recommender_constructed:
  "init demo_library ''user_item_interactions.csv'' ''item_metadata.csv'' (1 / 2) demo_world =
     (None, demo_recommender,
      demo_world\<lparr>logging_configured := True,
        log_records :=
          [(''INFO'', ''Initializing HybridRecommender''),
           (''INFO'', ''Data loaded successfully''),
           (''INFO'', ''Initializing collaborative filtering model''),
           (''INFO'', ''CF model trained - RMSE: 0.0000''),
           (''INFO'', ''Initializing content-based filtering''),
           (''INFO'', ''Calculating item similarity matrix'')]\<rparr>)"
  by (simp add: demo_init_defs)

text \<open>
  C2 (the code at the failing input). The example instance is saved and loaded; the
  loaded instance is a trained instance without a logger. \<^verbatim>\<open>save_model\<close> on the
  loaded instance writes the dump and then raises AttributeError, so for this trained
  instance saving followed by loading does not run through.
\<close>

theorem save_model_of_loaded_instance_raises:
  "fst (save_model demo_joblib ''model.joblib'' demo_recommender demo_world) = None \<and>
   load_model demo_joblib ''model.joblib''
     (snd (snd (save_model demo_joblib ''model.joblib'' demo_recommender demo_world))) =
     Inr demo_loaded \<and>
   logger demo_loaded = None \<and>
   fst (save_model demo_joblib ''copy.joblib'' demo_loaded demo_world) =
     Some (Exception ''AttributeError'' ''logger'') \<and>
   model_files (snd (snd (save_model demo_joblib ''copy.joblib'' demo_loaded demo_world)))
     ''copy.joblib'' = Some ''demo snapshot''"
  by (simp add: demo_persistence_defs)

section \<open>The content-similarity lookup\<close>

text \<open>
  The length and the order of the lookup's result: for \<open>n \<ge> 0\<close> it has
  \<open>min n (k - 1)\<close> entries for a similarity row of \<open>k\<close> scores (lemma
  \<open>length_sim_scores_of\<close>), in descending order of similarity, and the sort keeps entries
  of equal similarity in catalog order.
\<close>

lemma stable_sorted_reverse:
  "filter (\<lambda>x. k x = v) (sorted_reverse k xs) = filter (\<lambda>x. k x = v) xs"
proof -
  have "filter (\<lambda>x. - k x = - v) (sort_key (\<lambda>x. - k x) xs) = filter (\<lambda>x. - k x = - v) xs"
    by (rule sort_key_stable)
  then show ?thesis
    by (simp add: sorted_reverse_def)
qed

lemma sorted_sim_scores_of:
  "sorted_wrt (\<lambda>a b. snd b \<le> snd a) (sim_scores_of sim_row n)"
  unfolding sim_scores_of_def
  by (intro sorted_wrt_slice_1_to sorted_wrt_sorted_reverse)

text \<open>
  C3 (the code at the failing input). The lookup for item 1 of the example catalog with
  \<open>n = 1\<close> returns item 1 itself: item 2, with the same description, stands before
  it in the catalog and so first among the equal scores, and it is the first entry of the
  sorted list that is dropped.
\<close>

theorem similar_returns_seed_itself:
  "cb_recommendations demo_recommender demo_catalog 1 1 = Inr [(1, 1)]"
  by (simp add: eval_defs demo_defs)

section \<open>A seed item absent from the catalog\<close>

text \<open>
  C4 (as amended). For every user and every \<open>n\<close>, \<^verbatim>\<open>recommend_items\<close> with a seed
  item that is absent from the catalog fails with the built-in IndexError of
  \<^verbatim>\<open>.tolist()[0]\<close> on the empty list of matching rows (message "list index out of
  range").
\<close>

theorem absent_seed_raises_IndexError:
  assumes "item_data self = Some idata" and "cf_model self = Some m"
    and "iid \<notin> item_id ` set (rows idata)"
  shows "recommend_items self uid (Some iid) n = Inl (IndexError ''list index out of range'')"
  using assms
  by (simp add: recommend_items_def cf_predictions_returns content_based_recs_def
      cb_recommendations_absent)

text \<open>
  The theorem at the example catalog and the absent seed 9.
\<close>

theorem absent_seed_witness:
  "item_data demo_recommender = Some demo_catalog \<and>
   cf_model demo_recommender = Some demo_model \<and>
   9 \<notin> item_id ` set (rows demo_catalog) \<and>
   recommend_items demo_recommender 42 (Some 9) 5 = Inl (IndexError ''list index out of range'')"
  using absent_seed_raises_IndexError [of demo_recommender demo_catalog demo_model 9 42 5]
  by (simp add: demo_defs)

text \<open>
  C4 as stated fails: the exception raised for the absent seed 9 is of class IndexError,
  not of a class NotFoundError.
\<close>

theorem absent_seed_counterexample:
  "recommend_items demo_recommender 42 (Some 9) 5 =
     Inl (Exception ''IndexError'' ''list index out of range'') \<and>
   exc_type (Exception ''IndexError'' ''list index out of range'') \<noteq> ''NotFoundError''"
  by (simp add: eval_defs demo_defs)

section \<open>Recommendations without a seed item\<close>

text \<open>
  C5 (as amended). For every user, \<^verbatim>\<open>recommend_items\<close> with no seed item and
  \<open>n = 5\<close>, on a catalog whose item ids are distinct, returns at most 5 rows, none of
  them with a content score (the hybrid score is the collaborative score), in descending
  order of the collaborative score.
\<close>

theorem no_seed_top_five:
  assumes "item_data self = Some idata" and "cf_model self = Some m"
    and "distinct (map item_id (rows idata))"
  shows "\<exists>out. recommend_items self uid None 5 = Inr out \<and>
           length (rows out) \<le> 5 \<and>
           (\<forall>r \<in> set (rows out). cb_score r = None \<and>
               cf_score r = Some (predict_est m uid (item_id r)) \<and>
               hybrid_score r = predict_est m uid (item_id r)) \<and>
           sorted_wrt (\<lambda>a b. fillna 0 (cf_score b) \<le> fillna 0 (cf_score a)) (rows out)"
proof -
  let ?cf = "map (\<lambda>iid. (iid, predict_est m uid iid)) (unique (map item_id (rows idata)))"
  obtain recs where recs: "combine self ?cf [] = Inr recs"
    by (simp add: combine_def)
  let ?out = "merge_item_data (head 5 (sort_values_desc recs)) idata"
  have out: "recommend_items self uid None 5 = Inr ?out"
    by (rule recommend_items_returns [OF assms(1,2) recs]) (simp add: content_based_recs_def)
  have "length (rows ?out) \<le> length (rows (head 5 (sort_values_desc recs)))"
    by (rule length_rows_merge_item_data [OF assms(3)])
  also have "\<dots> \<le> nat 5"
    by (rule length_rows_head) simp
  finally have len: "length (rows ?out) \<le> 5" by simp
  have row: "cb_score r = None \<and> cf_score r = Some (predict_est m uid (item_id r)) \<and>
      hybrid_score r = predict_est m uid (item_id r)" if "r \<in> set (rows ?out)" for r
  proof -
    from that obtain s it where s: "s \<in> set (rows recs)" and r: "r = join_row s it"
      using out_rows by blast
    from combine_empty [OF recs s] r show ?thesis by auto
  qed
  have "sorted_wrt (\<lambda>a b. hybrid_score b \<le> hybrid_score a) (rows ?out)"
    by (rule rows_sorted_by_hybrid_score [OF out])
  then have "sorted_wrt (\<lambda>a b. fillna 0 (cf_score b) \<le> fillna 0 (cf_score a)) (rows ?out)"
    by (rule sorted_wrt_mono_rel [rotated]) (use row in \<open>auto simp: fillna_def\<close>)
  with out len row show ?thesis by blast
qed

text \<open>
  The theorem at the example.
\<close>

theorem no_seed_top_five_witness:
  "item_data demo_recommender = Some demo_catalog \<and>
   cf_model demo_recommender = Some demo_model \<and>
   distinct (map item_id (rows demo_catalog)) \<and>
   (\<exists>out. recommend_items demo_recommender 42 None 5 = Inr out \<and>
           length (rows out) \<le> 5 \<and>
           (\<forall>r \<in> set (rows out). cb_score r = None \<and>
               cf_score r = Some (predict_est demo_model 42 (item_id r)) \<and>
               hybrid_score r = predict_est demo_model 42 (item_id r)) \<and>
           sorted_wrt (\<lambda>a b. fillna 0 (cf_score b) \<le> fillna 0 (cf_score a)) (rows out))"
  using no_seed_top_five [of demo_recommender demo_catalog demo_model 42]
  by (simp add: demo_recommender_def demo_catalog_def)

text \<open>
  C5 as stated fails: the returned frame has no \<^verbatim>\<open>cb_score\<close> column and no row has
  a content score of 0.
\<close>

theorem no_seed_cb_score_counterexample:
  "recommend_items demo_recommender 42 None 5 =
     Inr \<lparr>columns = [''item_id'', ''cf_score'', ''hybrid_score'', ''description''],
          rows = [\<lparr>item_id = 2, cf_score = Some 3, cb_score = None, hybrid_score = 3,
                   metadata = \<lparr>item_id = 2, description = Some ''space opera''\<rparr>\<rparr>,
                  \<lparr>item_id = 1, cf_score = Some 3, cb_score = None, hybrid_score = 3,
                   metadata = \<lparr>item_id = 1, description = Some ''space opera''\<rparr>\<rparr>,
                  \<lparr>item_id = 3, cf_score = Some 3, cb_score = None, hybrid_score = 3,
                   metadata = \<lparr>item_id = 3, description = Some ''romantic drama''\<rparr>\<rparr>]\<rparr> \<and>
   (None :: real option) \<noteq> Some 0"
  by (simp add: eval_defs demo_defs)

section \<open>What construction checks\<close>

text \<open>
  C6 (as amended). Construction checks neither the rating values nor that there are
  interactions. When alpha is in range and both files exist and have the required
  columns, the rows of the interactions table go to the library's split as they were
  read, and the exception construction raises is the first one a library call (split,
  fit, test with RMSE, TF-IDF fit) raises, none if none does. It is raised after the
  collaborative-filtering step has begun and after it was logged as "Initialization
  failed"; on success the instance holds the interactions as read.
\<close>

theorem construction_outcome_is_the_librarys:
  assumes "0 \<le> a" "a \<le> 1"
    and "interaction_files w interactions_path = Some idf"
    and "metadata_files w metadata_path = Some mdf"
    and "list_all (\<lambda>col. col \<in> set (columns idf)) required_interaction_cols"
    and "list_all (\<lambda>col. col \<in> set (columns mdf)) required_metadata_cols"
  shows "fst (init lib interactions_path metadata_path a w) =
           (case train_test_split lib (rows idf) of
              Inl e \<Rightarrow> Some e
            | Inr (trainset, testset) \<Rightarrow>
                (case svd_fit lib (svd_new lib) trainset of
                   Inl e \<Rightarrow> Some e
                 | Inr m \<Rightarrow>
                     (case svd_test_rmse lib m testset of
                        Inl e \<Rightarrow> Some e
                      | Inr x \<Rightarrow>
                          (case tfidf_fit_transform lib
                                  \<lparr>stop_words = ''english'', vocabulary = None\<rparr>
                                  (map (\<lambda>it. fillna [] (description it)) (rows mdf)) of
                             Inl e \<Rightarrow> Some e
                           | Inr fitted \<Rightarrow> None)))) \<and>
         (''INFO'', ''Initializing collaborative filtering model'') \<in>
           set (log_records (snd (snd (init lib interactions_path metadata_path a w)))) \<and>
         (\<forall>e. fst (init lib interactions_path metadata_path a w) = Some e \<longrightarrow>
            last (log_records (snd (snd (init lib interactions_path metadata_path a w)))) =
              (''ERROR'', ''Initialization failed: '' @ exc_msg e)) \<and>
         (fst (init lib interactions_path metadata_path a w) = None \<longrightarrow>
            interactions (fst (snd (init lib interactions_path metadata_path a w))) = Some idf)"
proof -
  have docs: "(\<lambda>it. fillna [] (description it)) \<circ>
      (\<lambda>it::item. it\<lparr>description := Some (fillna [] (description it))\<rparr>) =
    (\<lambda>it. fillna [] (description it))"
    by (simp add: fun_eq_iff fillna_def)
  show ?thesis
    using assms
    by (auto simp: docs Let_def init_def and_then_def setup_logging_def logger_call_def
        load_data_def init_collaborative_filtering_def init_content_based_filtering_def
        calculate_similarity_matrix_def new_instance_def
        split: sum.splits prod.splits)
qed

text \<open>
  The theorem at interactions that carry a rating of 9, where every library call
  succeeds, and at an interactions table without rows, where the split raises.
\<close>

theorem construction_outcome_is_the_librarys_witness:
  "interaction_files out_of_scale_world ''user_item_interactions.csv'' =
     Some out_of_scale_interactions \<and>
   map rating (rows out_of_scale_interactions) = [9, 3, 4, 5] \<and>
   fst (init demo_library ''user_item_interactions.csv'' ''item_metadata.csv'' (1 / 2)
          out_of_scale_world) = None \<and>
   interactions (fst (snd (init demo_library ''user_item_interactions.csv''
      ''item_metadata.csv'' (1 / 2) out_of_scale_world))) = Some out_of_scale_interactions \<and>
   interaction_files no_interactions_world ''user_item_interactions.csv'' =
     Some no_interactions \<and>
   rows no_interactions = [] \<and>
   fst (init demo_library ''user_item_interactions.csv'' ''item_metadata.csv'' (1 / 2)
          no_interactions_world) =
     Some (ValueError ''test_size=0.25 should be less than the number of ratings 0'') \<and>
   last (log_records (snd (snd (init demo_library ''user_item_interactions.csv''
      ''item_metadata.csv'' (1 / 2) no_interactions_world)))) =
     (''ERROR'',
      ''Initialization failed: test_size=0.25 should be less than the number of ratings 0'')"
  using construction_outcome_is_the_librarys [where a = "1 / 2" and w = out_of_scale_world
      and interactions_path = "''user_item_interactions.csv''"
      and metadata_path = "''item_metadata.csv''"
      and idf = out_of_scale_interactions and mdf = demo_catalog and lib = demo_library]
    construction_outcome_is_the_librarys [where a = "1 / 2" and w = no_interactions_world
      and interactions_path = "''user_item_interactions.csv''"
      and metadata_path = "''item_metadata.csv''"
      and idf = no_interactions and mdf = demo_catalog and lib = demo_library]
  by (simp add: required_interaction_cols_def required_metadata_cols_def
      demo_library_def demo_world_def demo_catalog_def ValueError_def
      out_of_scale_world_def out_of_scale_interactions_def
      no_interactions_world_def no_interactions_def)

text \<open>
  C6 as stated fails: with a rating of 9, outside the scale 1 to 5, construction raises
  nothing; with no interactions the exception is the ValueError of the library's split,
  raised after the collaborative-filtering step has begun, and the code has no check of
  its own before it.
\<close>

theorem no_data_check_counterexample:
  "map rating (rows out_of_scale_interactions) = [9, 3, 4, 5] \<and>
   \<not> (1 \<le> (9::real) \<and> (9::real) \<le> 5) \<and>
   fst (init demo_library ''user_item_interactions.csv'' ''item_metadata.csv'' (1 / 2)
          out_of_scale_world) = None \<and>
   rows no_interactions = [] \<and>
   fst (init demo_library ''user_item_interactions.csv'' ''item_metadata.csv'' (1 / 2)
          no_interactions_world) =
     Some (Exception ''ValueError''
             ''test_size=0.25 should be less than the number of ratings 0'') \<and>
   log_records (snd (snd (init demo_library ''user_item_interactions.csv''
      ''item_metadata.csv'' (1 / 2) no_interactions_world))) =
     [(''INFO'', ''Initializing HybridRecommender''),
      (''INFO'', ''Data loaded successfully''),
      (''INFO'', ''Initializing collaborative filtering model''),
      (''ERROR'',
       ''Initialization failed: test_size=0.25 should be less than the number of ratings 0'')] \<and>
   ''ValueError'' \<noteq> ''DataError'' \<and> ''ValueError'' \<noteq> ''InsufficientDataError''"
  by (simp add: demo_init_defs no_interactions_world_def no_interactions_def ValueError_def)

text \<open>
  C7 (as amended). Construction fails with a ValueError ("Alpha must be between 0 and
  1") for \<open>alpha = -0.1\<close> and for \<open>alpha = 1.1\<close>, with no attribute of the instance
  set, nothing logged and the world unchanged; at \<open>alpha = 0\<close> and \<open>alpha = 1\<close> it
  succeeds (given the files, their columns and library calls that succeed).
\<close>

theorem alpha_range_check:
  assumes "a = 0 \<or> a = 1"
    and "interaction_files w interactions_path = Some idf"
    and "metadata_files w metadata_path = Some mdf"
    and "list_all (\<lambda>col. col \<in> set (columns idf)) required_interaction_cols"
    and "list_all (\<lambda>col. col \<in> set (columns mdf)) required_metadata_cols"
    and "train_test_split lib (rows idf) = Inr (trainset, testset)"
    and "svd_fit lib (svd_new lib) trainset = Inr m"
    and "svd_test_rmse lib m testset = Inr x"
    and "tfidf_fit_transform lib \<lparr>stop_words = ''english'', vocabulary = None\<rparr>
           (map (\<lambda>it. fillna [] (description it)) (rows mdf)) = Inr (tf, mat)"
  shows "init lib interactions_path metadata_path (- 1 / 10) w =
           (Some (ValueError ''Alpha must be between 0 and 1''), new_instance, w) \<and>
         init lib interactions_path metadata_path (11 / 10) w =
           (Some (ValueError ''Alpha must be between 0 and 1''), new_instance, w) \<and>
         (\<exists>self' w'. init lib interactions_path metadata_path a w = (None, self', w') \<and>
            alpha self' = Some a)"
proof -
  from assms(1) have "0 \<le> a" "a \<le> 1" by auto
  from init_succeeds [OF this assms(2-)]
  have "\<exists>self' w'. init lib interactions_path metadata_path a w = (None, self', w') \<and>
            alpha self' = Some a"
    by simp
  then show ?thesis
    by (simp add: init_alpha_out_of_range)
qed

text \<open>
  The theorem at the example files, at both boundary values.
\<close>

theorem alpha_range_check_witness:
  "init demo_library ''user_item_interactions.csv'' ''item_metadata.csv'' (- 1 / 10) demo_world =
     (Some (ValueError ''Alpha must be between 0 and 1''), new_instance, demo_world) \<and>
   init demo_library ''user_item_interactions.csv'' ''item_metadata.csv'' (11 / 10) demo_world =
     (Some (ValueError ''Alpha must be between 0 and 1''), new_instance, demo_world) \<and>
   (\<exists>self' w'. init demo_library ''user_item_interactions.csv'' ''item_metadata.csv'' 0 demo_world =
      (None, self', w') \<and> alpha self' = Some 0) \<and>
   (\<exists>self' w'. init demo_library ''user_item_interactions.csv'' ''item_metadata.csv'' 1 demo_world =
      (None, self', w') \<and> alpha self' = Some 1)"
  using alpha_range_check [where a = 0 and w = demo_world
      and interactions_path = "''user_item_interactions.csv''"
      and metadata_path = "''item_metadata.csv''"
      and idf = demo_interactions and mdf = demo_catalog and lib = demo_library
      and trainset = "drop 1 (rows demo_interactions)"
      and testset = "take 1 (rows demo_interactions)"
      and m = demo_model and x = 0 and tf = demo_tfidf and mat = demo_tfidf_matrix]
    alpha_range_check [where a = 1 and w = demo_world
      and interactions_path = "''user_item_interactions.csv''"
      and metadata_path = "''item_metadata.csv''"
      and idf = demo_interactions and mdf = demo_catalog and lib = demo_library
      and trainset = "drop 1 (rows demo_interactions)"
      and testset = "take 1 (rows demo_interactions)"
      and m = demo_model and x = 0 and tf = demo_tfidf and mat = demo_tfidf_matrix]
  by (simp add: required_interaction_cols_def required_metadata_cols_def
      demo_library_def demo_world_def demo_catalog_def demo_interactions_def)

text \<open>
  C7 as stated fails: the exception for \<open>alpha = -0.1\<close> is of class ValueError, not of a
  class ConfigError.
\<close>

theorem alpha_error_kind_counterexample:
  "fst (init demo_library ''user_item_interactions.csv'' ''item_metadata.csv'' (- 1 / 10)
          demo_world) = Some (Exception ''ValueError'' ''Alpha must be between 0 and 1'') \<and>
   exc_type (Exception ''ValueError'' ''Alpha must be between 0 and 1'') \<noteq> ''ConfigError''"
  by (simp add: init_def ValueError_def)

section \<open>The number of returned rows\<close>

text \<open>
  C8 (as amended). For every user, every \<open>n \<ge> 0\<close> and every seed that is absent or
  an item of the catalog, \<^verbatim>\<open>recommend_items\<close> on a trained instance whose catalog
  has distinct item ids returns a frame of at most \<open>n\<close> rows: none for \<open>n = 0\<close>, and
  none for an empty catalog.
\<close>

theorem at_most_n_items:
  assumes "item_data self = Some idata" and "cf_model self = Some m"
    and "alpha self = Some a" and "cosine_sim self = Some sim"
    and "similarity_shape (length (rows idata)) sim"
    and "distinct (map item_id (rows idata))"
    and "case seed of None \<Rightarrow> True | Some iid \<Rightarrow> iid \<in> item_id ` set (rows idata)"
    and "0 \<le> n"
  shows "\<exists>out. recommend_items self uid seed n = Inr out \<and>
           length (rows out) \<le> nat n \<and>
           (n = 0 \<longrightarrow> rows out = []) \<and>
           (rows idata = [] \<longrightarrow> rows out = [])"
proof -
  let ?cf = "map (\<lambda>iid. (iid, predict_est m uid iid)) (unique (map item_id (rows idata)))"
  obtain cb_recs where cb: "content_based_recs self idata seed n = Inr cb_recs"
  proof (cases seed)
    case None
    then show ?thesis using that by (simp add: content_based_recs_def)
  next
    case (Some iid)
    with assms(7) have "iid \<in> item_id ` set (rows idata)" by simp
    from cb_recommendations_returns [OF this assms(4,5)] Some that show ?thesis
      by (auto simp: content_based_recs_def)
  qed
  obtain recs where recs: "combine self ?cf cb_recs = Inr recs"
    using combine_returns [OF assms(3)] by blast
  let ?out = "merge_item_data (head n (sort_values_desc recs)) idata"
  have out: "recommend_items self uid seed n = Inr ?out"
    by (rule recommend_items_returns [OF assms(1,2) recs cb])
  have "length (rows ?out) \<le> length (rows (head n (sort_values_desc recs)))"
    by (rule length_rows_merge_item_data [OF assms(6)])
  also have "\<dots> \<le> nat n"
    by (rule length_rows_head [OF assms(8)])
  finally have len: "length (rows ?out) \<le> nat n" .
  then have "n = 0 \<longrightarrow> rows ?out = []" by auto
  moreover have "rows idata = [] \<longrightarrow> rows ?out = []"
    by (simp add: rows_merge_empty_catalog)
  ultimately show ?thesis using out len by blast
qed

text \<open>
  The theorem at the example with seed item 2, for \<open>n = 2\<close> and for \<open>n = 0\<close>, and at
  an instance with an empty catalog.
\<close>

theorem at_most_n_items_witness:
  "item_data demo_recommender = Some demo_catalog \<and>
   cf_model demo_recommender = Some demo_model \<and>
   alpha demo_recommender = Some (1 / 2) \<and>
   cosine_sim demo_recommender = Some demo_cosine_sim \<and>
   similarity_shape (length (rows demo_catalog)) demo_cosine_sim \<and>
   distinct (map item_id (rows demo_catalog)) \<and>
   2 \<in> item_id ` set (rows demo_catalog) \<and>
   (\<exists>out. recommend_items demo_recommender 42 (Some 2) 2 = Inr out \<and>
           length (rows out) \<le> nat 2 \<and> rows demo_catalog \<noteq> []) \<and>
   (\<exists>out. recommend_items demo_recommender 42 (Some 2) 0 = Inr out \<and> rows out = []) \<and>
   similarity_shape 0 [] \<and>
   (\<exists>out. recommend_items
        (demo_recommender\<lparr>item_data := Some \<lparr>columns = [''item_id'', ''description''], rows = []\<rparr>,
           cosine_sim := Some []\<rparr>) 42 None 2 = Inr out \<and> rows out = [])"
  using at_most_n_items [of demo_recommender demo_catalog demo_model "1 / 2"
      demo_cosine_sim "Some 2" 2 42]
    at_most_n_items [of demo_recommender demo_catalog demo_model "1 / 2"
      demo_cosine_sim "Some 2" 0 42]
    at_most_n_items [of "demo_recommender\<lparr>item_data :=
           Some \<lparr>columns = [''item_id'', ''description''], rows = []\<rparr>, cosine_sim := Some []\<rparr>"
      "\<lparr>columns = [''item_id'', ''description''], rows = []\<rparr>" demo_model "1 / 2"
      "[]" None 2 42]
  by (auto simp add: demo_recommender_def demo_catalog_def demo_cosine_sim_def similarity_shape_def)

text \<open>
  C8 as stated fails for negative \<open>n\<close>: with \<open>n = -1\<close> the call returns two of the
  three items, \<^verbatim>\<open>head(-1)\<close> dropping only the last row.
\<close>

theorem negative_n_counterexample:
  "recommend_items demo_recommender 42 None (- 1) =
     Inr \<lparr>columns = [''item_id'', ''cf_score'', ''hybrid_score'', ''description''],
          rows = [\<lparr>item_id = 2, cf_score = Some 3, cb_score = None, hybrid_score = 3,
                   metadata = \<lparr>item_id = 2, description = Some ''space opera''\<rparr>\<rparr>,
                  \<lparr>item_id = 1, cf_score = Some 3, cb_score = None, hybrid_score = 3,
                   metadata = \<lparr>item_id = 1, description = Some ''space opera''\<rparr>\<rparr>]\<rparr> \<and>
   (- 1 :: int) \<le> 0"
  by (simp add: eval_defs demo_defs)

section \<open>The order of the result\<close>

text \<open>
  C9 (as amended). The returned rows are in descending order of hybrid score; nothing
  orders rows of equal hybrid score by item id.
\<close>

theorem ranking_descending:
  assumes "recommend_items self uid seed n = Inr out"
  shows "sorted_wrt (\<lambda>a b. hybrid_score b \<le> hybrid_score a) (rows out)"
  by (rule rows_sorted_by_hybrid_score [OF assms])

text \<open>
  The theorem at the example, seed item 2 and \<open>n = 2\<close>.
\<close>

theorem ranking_descending_witness:
  "recommend_items demo_recommender 42 (Some 2) 2 =
     Inr \<lparr>columns = [''item_id'', ''cf_score'', ''cb_score'', ''hybrid_score'', ''description''],
          rows = [\<lparr>item_id = 1, cf_score = Some 3, cb_score = Some 1, hybrid_score = 2,
                   metadata = \<lparr>item_id = 1, description = Some ''space opera''\<rparr>\<rparr>,
                  \<lparr>item_id = 2, cf_score = Some 3, cb_score = None, hybrid_score = 3 / 2,
                   metadata = \<lparr>item_id = 2, description = Some ''space opera''\<rparr>\<rparr>]\<rparr> \<and>
   sorted_wrt (\<lambda>a b. hybrid_score b \<le> hybrid_score a)
     [\<lparr>item_id = 1, cf_score = Some 3, cb_score = Some 1, hybrid_score = 2,
                   metadata = \<lparr>item_id = 1, description = Some ''space opera''\<rparr>\<rparr>,
                  \<lparr>item_id = 2, cf_score = Some 3, cb_score = None, hybrid_score = 3 / 2,
                   metadata = \<lparr>item_id = 2, description = Some ''space opera''\<rparr>\<rparr>]"
  using ranking_descending [of demo_recommender 42 "Some 2" 2]
  by (simp add: eval_defs demo_defs)

text \<open>
  C9 as stated fails: without a seed the items 2 and 1 have the same hybrid score and
  item 2, first in the catalog, is returned before item 1.
\<close>

theorem tie_order_counterexample:
  "recommend_items demo_recommender 42 None 2 =
     Inr \<lparr>columns = [''item_id'', ''cf_score'', ''hybrid_score'', ''description''],
          rows = [\<lparr>item_id = 2, cf_score = Some 3, cb_score = None, hybrid_score = 3,
                   metadata = \<lparr>item_id = 2, description = Some ''space opera''\<rparr>\<rparr>,
                  \<lparr>item_id = 1, cf_score = Some 3, cb_score = None, hybrid_score = 3,
                   metadata = \<lparr>item_id = 1, description = Some ''space opera''\<rparr>\<rparr>]\<rparr> \<and>
   (1::int) < 2"
  by (simp add: eval_defs demo_defs)

section \<open>Collaborative scores after the join\<close>

text \<open>
  C10. For every call with a seed item of the catalog, on a trained instance whose
  similarity matrix has the shape of the catalog: the call returns; the items of the
  content-based candidates are among the items the collaborative loop scored; every row
  of the combined frame, and so every returned row, has a collaborative score, the
  model's prediction for the user and the row's item, so that \<^verbatim>\<open>fillna(0)\<close>
  never replaces a missing one.
\<close>

theorem cf_score_always_predicted:
  assumes "item_data self = Some idata" and "cf_model self = Some m"
    and "alpha self = Some a" and "cosine_sim self = Some sim"
    and "similarity_shape (length (rows idata)) sim"
    and "iid \<in> item_id ` set (rows idata)"
  shows "\<exists>cf_recs cb_recs recs out.
           cf_predictions self uid (unique (map item_id (rows idata))) = Inr cf_recs \<and>
           content_based_recs self idata (Some iid) n = Inr cb_recs \<and>
           fst ` set cb_recs \<subseteq> fst ` set cf_recs \<and>
           combine self cf_recs cb_recs = Inr recs \<and>
           (\<forall>s \<in> set (rows recs). cf_score s = Some (predict_est m uid (item_id s))) \<and>
           recommend_items self uid (Some iid) n = Inr out \<and>
           (\<forall>r \<in> set (rows out). cf_score r = Some (predict_est m uid (item_id r)))"
proof -
  let ?cf = "map (\<lambda>iid. (iid, predict_est m uid iid)) (unique (map item_id (rows idata)))"
  have cf: "cf_predictions self uid (unique (map item_id (rows idata))) = Inr ?cf"
    by (rule cf_predictions_returns [OF assms(2)])
  obtain cb_recs where cb: "cb_recommendations self idata iid n = Inr cb_recs"
    using cb_recommendations_returns [OF assms(6,4,5)] by blast
  then have cbr: "content_based_recs self idata (Some iid) n = Inr cb_recs"
    by (simp add: content_based_recs_def)
  obtain recs where recs: "combine self ?cf cb_recs = Inr recs"
    using combine_returns [OF assms(3)] by blast
  have out: "recommend_items self uid (Some iid) n =
      Inr (merge_item_data (head n (sort_values_desc recs)) idata)"
    by (rule recommend_items_returns [OF assms(1,2) recs cbr])
  have cf_keys: "fst ` set ?cf = set (unique (map item_id (rows idata)))"
    by (force simp: image_iff)
  have keys: "fst ` set cb_recs \<subseteq> fst ` set ?cf"
    using cb_recommendations_keys [OF cb] unfolding cf_keys by (simp add: set_unique)
  have joined: "cf_score s = Some (predict_est m uid (item_id s))"
    if s: "s \<in> set (rows recs)" for s
  proof -
    have "\<exists>c. cf_score s = Some c \<and> (item_id s, c) \<in> set ?cf"
    proof (cases "cb_recs = []")
      case True
      then show ?thesis
        using combine_empty [of self ?cf recs s] recs s by auto
    next
      case False
      from combine_merged [OF recs False s]
      have mem: "(item_id s, cf_score s, cb_score s) \<in> set (merge_outer ?cf cb_recs)"
        by blast
      then have "item_id s \<in> fst ` set ?cf"
        using merge_outer_keys [OF mem] keys by blast
      then show ?thesis
        by (rule merge_outer_cf [OF mem])
    qed
    then show ?thesis by auto
  qed
  have returned: "cf_score r = Some (predict_est m uid (item_id r))"
    if "r \<in> set (rows (merge_item_data (head n (sort_values_desc recs)) idata))" for r
  proof -
    from that obtain s it where "s \<in> set (rows recs)" and "r = join_row s it"
      using out_rows by blast
    with joined show ?thesis by simp
  qed
  from cf cbr keys recs joined out returned show ?thesis by blast
qed

text \<open>
  The theorem at the example, seed item 2 and \<open>n = 2\<close>.
\<close>

theorem cf_score_always_predicted_witness:
  "item_data demo_recommender = Some demo_catalog \<and>
   cf_model demo_recommender = Some demo_model \<and>
   alpha demo_recommender = Some (1 / 2) \<and>
   cosine_sim demo_recommender = Some demo_cosine_sim \<and>
   similarity_shape (length (rows demo_catalog)) demo_cosine_sim \<and>
   2 \<in> item_id ` set (rows demo_catalog) \<and>
   (\<exists>cf_recs cb_recs recs out.
      cf_predictions demo_recommender 42 (unique (map item_id (rows demo_catalog))) = Inr cf_recs \<and>
      content_based_recs demo_recommender demo_catalog (Some 2) 2 = Inr cb_recs \<and>
      fst ` set cb_recs \<subseteq> fst ` set cf_recs \<and>
      combine demo_recommender cf_recs cb_recs = Inr recs \<and>
      (\<forall>s \<in> set (rows recs). cf_score s = Some (predict_est demo_model 42 (item_id s))) \<and>
      recommend_items demo_recommender 42 (Some 2) 2 = Inr out \<and>
      (\<forall>r \<in> set (rows out). cf_score r = Some (predict_est demo_model 42 (item_id r))))"
  using cf_score_always_predicted [of demo_recommender demo_catalog demo_model "1 / 2"
      demo_cosine_sim 2 42 2]
  by (simp add: demo_recommender_def demo_catalog_def demo_cosine_sim_def similarity_shape_def)

end
